theory Spec2Isabelle
  imports Main "HOL-Library.Word"
begin

section \<open>JavaScript values used by the API aggregation layer\<close>

subsection \<open>Strings\<close>

text \<open>
  A JavaScript string is a sequence of UTF-16 code units. String literals of the source
  that are plain ASCII are written with \<open>js\<close>; the Japanese literals are written as
  their code units.
\<close>

type_synonym jsstring = "16 word list"

definition js :: "string \<Rightarrow> jsstring" where
  "js s = map (\<lambda>c. word_of_nat (of_char c)) s"

text \<open>The errors the modelled code can raise; \<open>Error\<close> carries the message.\<close>

datatype js_error = Error jsstring | TypeError | URIError | SyntaxError

text \<open>\<open>Array.prototype.join\<close> on an array of strings.\<close>

fun join :: "jsstring \<Rightarrow> jsstring list \<Rightarrow> jsstring" where
  "join sep [] = []"
| "join sep [x] = x"
| "join sep (x # y # ys) = x @ sep @ join sep (y # ys)"

text \<open>\<open>String.prototype.includes\<close>: the pattern occurs as a contiguous run.\<close>

fun startsWith :: "jsstring \<Rightarrow> jsstring \<Rightarrow> bool" where
  "startsWith s [] = True"
| "startsWith [] (p # ps) = False"
| "startsWith (c # cs) (p # ps) = (c = p \<and> startsWith cs ps)"

fun str_includes :: "jsstring \<Rightarrow> jsstring \<Rightarrow> bool" where
  "str_includes [] p = (p = [])"
| "str_includes (c # cs) p = (startsWith (c # cs) p \<or> str_includes cs p)"

text \<open>
  \<open>String.prototype.toLowerCase\<close>. The ASCII letters are mapped here; the Unicode
  case table for the code units from 128 on is the runtime's and is taken as the
  parameter \<open>lc\<close>, which gives the code units a non-ASCII unit is replaced by.
\<close>

definition lowerUnit :: "(16 word \<Rightarrow> jsstring) \<Rightarrow> 16 word \<Rightarrow> jsstring" where
  "lowerUnit lc c =
     (if 65 \<le> unat c \<and> unat c \<le> 90 then [c + 32]
      else if unat c < 128 then [c]
      else lc c)"

definition toLowerCase :: "(16 word \<Rightarrow> jsstring) \<Rightarrow> jsstring \<Rightarrow> jsstring" where
  "toLowerCase lc s = concat (map (lowerUnit lc) s)"

text \<open>Decimal rendering of an integer, as a template literal renders a number.\<close>

fun digits :: "nat \<Rightarrow> jsstring" where
  "digits n = (if n < 10 then [word_of_nat (48 + n)]
               else digits (n div 10) @ [word_of_nat (48 + n mod 10)])"

declare digits.simps [simp del]

definition numberToString :: "int \<Rightarrow> jsstring" where
  "numberToString i = (if i < 0 then js ''-'' @ digits (nat (- i)) else digits (nat i))"

subsection \<open>encodeURIComponent\<close>

definition isUnreserved :: "16 word \<Rightarrow> bool" where
  "isUnreserved c =
     (let n = unat c in
      (65 \<le> n \<and> n \<le> 90) \<or> (97 \<le> n \<and> n \<le> 122) \<or> (48 \<le> n \<and> n \<le> 57) \<or>
      c \<in> set (js ''-_.!~*'()''))"

definition isHighSurrogate :: "16 word \<Rightarrow> bool" where
  "isHighSurrogate c = (0xD800 \<le> unat c \<and> unat c \<le> 0xDBFF)"

definition isLowSurrogate :: "16 word \<Rightarrow> bool" where
  "isLowSurrogate c = (0xDC00 \<le> unat c \<and> unat c \<le> 0xDFFF)"

definition hexDigit :: "nat \<Rightarrow> 16 word" where
  "hexDigit d = (if d < 10 then word_of_nat (48 + d) else word_of_nat (55 + d))"

definition percentByte :: "nat \<Rightarrow> jsstring" where
  "percentByte b = [37, hexDigit (b div 16), hexDigit (b mod 16)]"

definition utf8 :: "nat \<Rightarrow> nat list" where
  "utf8 cp =
     (if cp < 0x80 then [cp]
      else if cp < 0x800 then [0xC0 + cp div 64, 0x80 + cp mod 64]
      else if cp < 0x10000 then
        [0xE0 + cp div 4096, 0x80 + (cp div 64) mod 64, 0x80 + cp mod 64]
      else
        [0xF0 + cp div 262144, 0x80 + (cp div 4096) mod 64,
         0x80 + (cp div 64) mod 64, 0x80 + cp mod 64])"

definition percentEncode :: "nat \<Rightarrow> jsstring" where
  "percentEncode cp = concat (map percentByte (utf8 cp))"

text \<open>
  A code unit outside the unreserved set is replaced by the percent-escapes of the
  UTF-8 bytes of its code point; a surrogate that is not part of a pair raises URIError.
\<close>

fun encodeURIComponent :: "jsstring \<Rightarrow> js_error + jsstring" where
  "encodeURIComponent [] = Inr []"
| "encodeURIComponent (c # cs) =
     (if isUnreserved c then
        (case encodeURIComponent cs of Inl e \<Rightarrow> Inl e | Inr r \<Rightarrow> Inr (c # r))
      else if isLowSurrogate c then Inl URIError
      else if isHighSurrogate c then
        (case cs of
           [] \<Rightarrow> Inl URIError
         | d # ds \<Rightarrow>
             if isLowSurrogate d then
               (case encodeURIComponent ds of
                  Inl e \<Rightarrow> Inl e
                | Inr r \<Rightarrow>
                    Inr (percentEncode
                           (0x10000 + (unat c - 0xD800) * 0x400 + (unat d - 0xDC00)) @ r))
             else Inl URIError)
      else
        (case encodeURIComponent cs of
           Inl e \<Rightarrow> Inl e
         | Inr r \<Rightarrow> Inr (percentEncode (unat c) @ r)))"

subsection \<open>Map\<close>

text \<open>
  A JavaScript \<open>Map\<close> iterates in insertion order: \<open>set\<close> on a key that is present
  keeps its position, \<open>set\<close> on a new key appends.
\<close>

type_synonym ('k, 'v) jsmap = "('k \<times> 'v) list"

definition map_get :: "'k \<Rightarrow> ('k, 'v) jsmap \<Rightarrow> 'v option" where
  "map_get k m = map_of m k"

definition map_has :: "'k \<Rightarrow> ('k, 'v) jsmap \<Rightarrow> bool" where
  "map_has k m = (map_of m k \<noteq> None)"

primrec map_set :: "'k \<Rightarrow> 'v \<Rightarrow> ('k, 'v) jsmap \<Rightarrow> ('k, 'v) jsmap" where
  "map_set k v [] = [(k, v)]"
| "map_set k v (p # ps) = (if fst p = k then (k, v) # ps else p # map_set k v ps)"

definition map_delete :: "'k \<Rightarrow> ('k, 'v) jsmap \<Rightarrow> ('k, 'v) jsmap" where
  "map_delete k m = filter (\<lambda>p. fst p \<noteq> k) m"

definition map_size :: "('k, 'v) jsmap \<Rightarrow> nat" where
  "map_size m = length m"

definition map_keys :: "('k, 'v) jsmap \<Rightarrow> 'k list" where
  "map_keys m = map fst m"

section \<open>utils/image-utils.ts\<close>

type_synonym url_cache = "(jsstring, jsstring) jsmap"

definition placeholder :: jsstring where
  "placeholder = js ''/placeholder.svg?height=400&width=400''"

text \<open>
  \<open>getProxiedImageUrl(originalUrl: string | null | undefined)\<close>. \<open>None\<close> is null or
  undefined; the empty string is falsy as well. The result is the returned string or
  the error raised, together with the cache after the call.
\<close>

definition getProxiedImageUrl ::
  "jsstring option \<Rightarrow> url_cache \<Rightarrow> (js_error + jsstring) \<times> url_cache" where
  "getProxiedImageUrl originalUrl urlCache =
     (case originalUrl of
        None \<Rightarrow> (Inr placeholder, urlCache)
      | Some u \<Rightarrow>
          if u = [] then (Inr placeholder, urlCache)
          else
            let cacheKey = js ''proxy_'' @ u in
            (case map_get cacheKey urlCache of
               Some v \<Rightarrow> (Inr v, urlCache)
             | None \<Rightarrow>
                 (case encodeURIComponent u of
                    Inl e \<Rightarrow> (Inl e, urlCache)
                  | Inr enc \<Rightarrow>
                      let proxiedUrl = js ''/api/image-proxy?url='' @ enc in
                      (Inr proxiedUrl, map_set cacheKey proxiedUrl urlCache))))"

text \<open>
  \<open>getTMDbImageUrl(path: string | null, size = "w500")\<close>; the parameter \<open>size\<close> is
  \<open>sz\<close> here.
\<close>

definition getTMDbImageUrl ::
  "jsstring option \<Rightarrow> jsstring \<Rightarrow> url_cache \<Rightarrow> (js_error + jsstring) \<times> url_cache" where
  "getTMDbImageUrl path sz urlCache =
     (case path of
        None \<Rightarrow> (Inr placeholder, urlCache)
      | Some p \<Rightarrow>
          if p = [] then (Inr placeholder, urlCache)
          else
            let cacheKey = js ''tmdb_'' @ p @ js ''_'' @ sz in
            (case map_get cacheKey urlCache of
               Some v \<Rightarrow> (Inr v, urlCache)
             | None \<Rightarrow>
                 let tmdbUrl = js ''https://image.tmdb.org/t/p/'' @ sz @ p in
                 (Inr tmdbUrl, map_set cacheKey tmdbUrl urlCache)))"

text \<open>
  \<open>getSpotifyImageUrl(images: any[] | undefined)\<close>. An element of the array is an
  object with an optional \<open>url\<close>, or null/undefined (\<open>None\<close>); reading \<open>.url\<close> of
  null or undefined raises TypeError.
\<close>

record spotify_image =
  url :: "jsstring option"

definition getSpotifyImageUrl ::
  "spotify_image option list option \<Rightarrow> url_cache \<Rightarrow> (js_error + jsstring) \<times> url_cache" where
  "getSpotifyImageUrl images urlCache =
     (case images of
        None \<Rightarrow> (Inr placeholder, urlCache)
      | Some [] \<Rightarrow> (Inr placeholder, urlCache)
      | Some (None # _) \<Rightarrow> (Inl TypeError, urlCache)
      | Some (Some img # _) \<Rightarrow>
          (case url img of
             None \<Rightarrow> (Inr placeholder, urlCache)
           | Some imageUrl \<Rightarrow>
               if imageUrl = [] then (Inr placeholder, urlCache)
               else
                 let cacheKey = js ''spotify_'' @ imageUrl in
                 (case map_get cacheKey urlCache of
                    Some v \<Rightarrow> (Inr v, urlCache)
                  | None \<Rightarrow> (Inr imageUrl, map_set cacheKey imageUrl urlCache))))"

text \<open>\<open>getWikipediaImageUrl(entityId: string | null)\<close>.\<close>

definition getWikipediaImageUrl ::
  "jsstring option \<Rightarrow> url_cache \<Rightarrow> (js_error + jsstring) \<times> url_cache" where
  "getWikipediaImageUrl entityId urlCache =
     (case entityId of
        None \<Rightarrow> (Inr placeholder, urlCache)
      | Some i \<Rightarrow>
          if i = [] then (Inr placeholder, urlCache)
          else
            let cacheKey = js ''wiki_'' @ i in
            (case map_get cacheKey urlCache of
               Some v \<Rightarrow> (Inr v, urlCache)
             | None \<Rightarrow>
                 let wikimediaUrl =
                   js ''https://commons.wikimedia.org/wiki/Special:FilePath/'' @ i @
                   js ''?width=800'' in
                 (case encodeURIComponent wikimediaUrl of
                    Inl e \<Rightarrow> (Inl e, urlCache)
                  | Inr enc \<Rightarrow>
                      let proxiedUrl = js ''/api/image-proxy?url='' @ enc in
                      (Inr proxiedUrl, map_set cacheKey proxiedUrl urlCache))))"

text \<open>
  \<open>limitCacheSize(maxSize = 100)\<close>. \<open>keys().next().value\<close> is the first key in
  iteration order, or undefined on an empty map, where \<open>delete\<close> removes nothing.
\<close>

definition limitCacheSize :: "int \<Rightarrow> url_cache \<Rightarrow> url_cache" where
  "limitCacheSize maxSize urlCache =
     (if int (map_size urlCache) > maxSize then
        (case map_keys urlCache of
           [] \<Rightarrow> urlCache
         | oldestKey # _ \<Rightarrow> map_delete oldestKey urlCache)
      else urlCache)"

section \<open>The process environment, the clock and the network\<close>

text \<open>
  The result of an \<open>async\<close> function: the value its promise is fulfilled with, or the
  error it is rejected with.
\<close>

type_synonym 'a promise = "js_error + 'a"

text \<open>
  Falsy values: \<open>None\<close> stands for null and undefined, and the empty string is falsy
  too. \<open>orElse a b\<close> is \<open>a || b\<close> for a string-valued \<open>b\<close>.
\<close>

definition truthy :: "jsstring option \<Rightarrow> jsstring option" where
  "truthy a = (case a of None \<Rightarrow> None | Some s \<Rightarrow> if s = [] then None else Some s)"

definition orElse :: "jsstring option \<Rightarrow> jsstring \<Rightarrow> jsstring" where
  "orElse a b = (case truthy a of None \<Rightarrow> b | Some s \<Rightarrow> s)"

primrec filterTruthy :: "'a option list \<Rightarrow> 'a list" where
  "filterTruthy [] = []"
| "filterTruthy (x # xs) = (case x of None \<Rightarrow> filterTruthy xs | Some v \<Rightarrow> v # filterTruthy xs)"

text \<open>\<open>Array.prototype.slice(0, end)\<close>: a negative \<open>end\<close> counts from the end.\<close>

definition slice0 :: "int \<Rightarrow> 'a list \<Rightarrow> 'a list" where
  "slice0 e xs = (if e < 0 then take (nat (int (length xs) + e)) xs else take (nat e) xs)"

text \<open>The Knowledge Graph entity (the license fields, which no code reads, are left out).\<close>

record detailedDescription =
  articleBody :: jsstring
  dd_url :: jsstring

record entity_image =
  contentUrl :: jsstring
  img_url :: jsstring

text \<open>
  \<open>at_id\<close>, \<open>at_type\<close> are the fields \<open>"@id"\<close> and \<open>"@type"\<close>; \<open>ent_url\<close> is
  \<open>url\<close>. The interface declares \<open>"@type"\<close> as required, but \<open>determineCategory\<close>
  allows for its absence, so it is optional here.
\<close>

record kg_entity =
  at_id :: jsstring
  name :: jsstring
  at_type :: "jsstring list option"
  description :: "jsstring option"
  detailedDescription :: "detailedDescription option"
  kg_image :: "entity_image option"
  ent_url :: "jsstring option"

record kg_item =
  result :: "kg_entity option"

text \<open>
  The Wikipedia API objects. A page id is a number that the code only ever renders
  into a string (a template literal or a property key), so it is kept as its rendering.
  An element of the search result list is an object or null. \<open>page_extract\<close> is
  the field \<open>extract\<close>: a string, some other truthy value (a number, an object),
  which has no \<open>substring\<close> method, or \<open>None\<close> when it is missing or null.
\<close>

record search_result =
  sr_pageid :: jsstring

datatype json_value = JString jsstring | JOther

record page_thumbnail =
  source :: "jsstring option"

record wiki_page =
  pageid :: jsstring
  title :: jsstring
  page_extract :: "json_value option"
  thumbnail :: "page_thumbnail option"

text \<open>
  The JSON documents the three endpoints answer with, as far as the code reads them:
  \<open>data.itemListElement\<close>; \<open>data.query\<close> and \<open>data.query.search\<close>; \<open>data.query\<close>
  and \<open>data.query.pages\<close>, an object keyed by page id. \<open>None\<close> is a missing field.
\<close>

datatype json =
    KnowledgeGraphResponse "kg_item list option"
  | SearchResponse "search_result option list option option"
  | ContentResponse "(jsstring \<times> wiki_page) list option option"

datatype response_body = NotJson | Json json

record response =
  ok :: bool
  statusText :: jsstring
  body :: response_body

datatype fetch_result = Rejected | Resolved response

text \<open>
  What the code reads from outside: the environment variable
  \<open>GOOGLE_KNOWLEDGE_GRAPH_API_KEY\<close>, the value of the n-th call of \<open>Date.now()\<close>,
  and the outcome of the n-th \<open>fetch\<close>, given its URL.
\<close>

record env =
  apiKey :: "jsstring option"
  clock :: "nat \<Rightarrow> int"
  fetch :: "nat \<Rightarrow> jsstring \<Rightarrow> fetch_result"

text \<open>
  The module-level state: the number of clock readings so far, the URLs fetched so
  far (oldest first), the \<open>searchCache\<close> of the Knowledge Graph client, the
  \<open>searchCache\<close> and \<open>contentCache\<close> of the Wikipedia client and the \<open>urlCache\<close>
  of the image utilities. Console output is not modelled.
\<close>

record state =
  ticks :: nat
  requests :: "jsstring list"
  kgSearchCache :: "(jsstring, kg_entity list) jsmap"
  searchCache :: "(jsstring, search_result option list \<times> int) jsmap"
  contentCache :: "(jsstring, wiki_page option \<times> int) jsmap"
  urlCache :: url_cache

definition dateNow :: "env \<Rightarrow> state \<Rightarrow> int \<times> state" where
  "dateNow e s = (clock e (ticks s), s\<lparr>ticks := Suc (ticks s)\<rparr>)"

definition doFetch :: "env \<Rightarrow> jsstring \<Rightarrow> state \<Rightarrow> fetch_result \<times> state" where
  "doFetch e u s = (fetch e (length (requests s)) u, s\<lparr>requests := requests s @ [u]\<rparr>)"

text \<open>
  The recommendation item both clients build. \<open>imageUrl\<close> is optional here because
  the Wikipedia client can store undefined in it. \<open>apiData\<close> has the two shapes
  the clients write (the constant \<open>type\<close> and \<open>imageSource\<close> strings are the
  constructor): id and entity types, or id and extract.
\<close>

datatype api_data =
    KnowledgeGraphData jsstring "jsstring list"
  | WikipediaData jsstring "json_value option"

record recommendation_item =
  item_name :: jsstring
  reason :: jsstring
  features :: "jsstring list"
  imageUrl :: "jsstring option"
  officialUrl :: jsstring
  apiData :: api_data

section \<open>The Knowledge Graph client\<close>

definition getApiKey :: "env \<Rightarrow> js_error + jsstring" where
  "getApiKey e =
     (case truthy (apiKey e) of
        None \<Rightarrow>
          Inl (Error (js ''Google Knowledge Graph API key is not set in environment variables''))
      | Some k \<Rightarrow> Inr k)"

text \<open>\<open>types.map((t) => encodeURIComponent(t))\<close>, which raises what an element raises.\<close>

fun encodeAll :: "jsstring list \<Rightarrow> js_error + jsstring list" where
  "encodeAll [] = Inr []"
| "encodeAll (t # ts) =
     (case encodeURIComponent t of
        Inl e \<Rightarrow> Inl e
      | Inr x \<Rightarrow> (case encodeAll ts of Inl e \<Rightarrow> Inl e | Inr xs \<Rightarrow> Inr (x # xs)))"

definition kgCacheKey :: "jsstring \<Rightarrow> jsstring list \<Rightarrow> int \<Rightarrow> jsstring" where
  "kgCacheKey query types limit =
     query @ js ''_'' @ join (js '','') types @ js ''_'' @ numberToString limit"

text \<open>The request URL built inside the \<open>try\<close> block of \<open>searchEntities\<close>.\<close>

definition kgRequestUrl ::
  "jsstring \<Rightarrow> jsstring \<Rightarrow> jsstring list \<Rightarrow> int \<Rightarrow> js_error + jsstring" where
  "kgRequestUrl key query types limit =
     (case encodeURIComponent query of
        Inl err \<Rightarrow> Inl err
      | Inr encodedQuery \<Rightarrow>
          let u = js ''https://kgsearch.googleapis.com/v1/entities:search?query='' @
                  encodedQuery @ js ''&key='' @ key @ js ''&limit='' @
                  numberToString limit @ js ''&indent=true'' in
          if types \<noteq> [] then
            (case encodeAll types of
               Inl err \<Rightarrow> Inl err
             | Inr ts \<Rightarrow> Inr (u @ js ''&types='' @ join (js '','') ts @ js ''&languages=ja,en''))
          else Inr (u @ js ''&languages=ja,en''))"

text \<open>
  The \<open>try\<close> block of \<open>searchEntities\<close>: \<open>Inl\<close> is the error that reaches the
  \<open>catch\<close>. A rejected \<open>fetch\<close> raises TypeError, a body that is not JSON raises
  SyntaxError, and \<open>data.itemListElement.map\<close> raises TypeError when the field is
  missing.
\<close>

definition searchEntities_try ::
  "env \<Rightarrow> jsstring \<Rightarrow> jsstring list \<Rightarrow> int \<Rightarrow> state \<Rightarrow> kg_entity list promise \<times> state" where
  "searchEntities_try e query types limit s =
     (case getApiKey e of
        Inl err \<Rightarrow> (Inl err, s)
      | Inr key \<Rightarrow>
          (case kgRequestUrl key query types limit of
             Inl err \<Rightarrow> (Inl err, s)
           | Inr u \<Rightarrow>
               let (r, s1) = doFetch e u s in
               (case r of
                  Rejected \<Rightarrow> (Inl TypeError, s1)
                | Resolved resp \<Rightarrow>
                    if \<not> ok resp then
                      (Inl (Error (js ''Failed to search entities: '' @ statusText resp)), s1)
                    else
                      (case body resp of
                         NotJson \<Rightarrow> (Inl SyntaxError, s1)
                       | Json (KnowledgeGraphResponse (Some items)) \<Rightarrow>
                           let entities = filterTruthy (map result items) in
                           (Inr entities,
                            s1\<lparr>kgSearchCache :=
                                 map_set (kgCacheKey query types limit) entities
                                   (kgSearchCache s1)\<rparr>)
                       | Json _ \<Rightarrow> (Inl TypeError, s1)))))"

text \<open>
  \<open>searchEntities(query, types = [], limit = 10)\<close>: the cache is read before the
  \<open>try\<close>; the \<open>catch\<close> turns every error of the block into the empty list.
\<close>

definition searchEntities ::
  "env \<Rightarrow> jsstring \<Rightarrow> jsstring list \<Rightarrow> int \<Rightarrow> state \<Rightarrow> kg_entity list promise \<times> state" where
  "searchEntities e query types limit s =
     (case map_get (kgCacheKey query types limit) (kgSearchCache s) of
        Some cached \<Rightarrow> (Inr cached, s)
      | None \<Rightarrow>
          (case searchEntities_try e query types limit s of
             (Inl err, s') \<Rightarrow> (Inr [], s')
           | (Inr entities, s') \<Rightarrow> (Inr entities, s')))"

text \<open>
  \<open>determineCategory\<close>; \<open>lc\<close> is the case table of \<open>toLowerCase\<close>.
  \<open>typeString\<close> is the local \<open>typeStr\<close>, and the four predicates are the
  conditions of the four \<open>if\<close> statements, in the order of the source.
\<close>

definition typeString :: "(16 word \<Rightarrow> jsstring) \<Rightarrow> kg_entity \<Rightarrow> jsstring" where
  "typeString lc entity =
     (let types = (case at_type entity of None \<Rightarrow> [] | Some ts \<Rightarrow> ts) in
      toLowerCase lc (join (js '' '') types))"

definition isMusic :: "jsstring \<Rightarrow> bool" where
  "isMusic typeStr =
     (str_includes typeStr (js ''musician'') \<or>
      str_includes typeStr (js ''artist'') \<or>
      str_includes typeStr (js ''musicgroup'') \<or>
      str_includes typeStr (js ''band'') \<or>
      str_includes typeStr (js ''music''))"

definition isCelebrity :: "jsstring \<Rightarrow> bool" where
  "isCelebrity typeStr =
     (str_includes typeStr (js ''actor'') \<or>
      str_includes typeStr (js ''actress'') \<or>
      str_includes typeStr (js ''celebrity'') \<or>
      str_includes typeStr (js ''person'') \<or>
      str_includes typeStr (js ''director'') \<or>
      str_includes typeStr (js ''athlete''))"

definition isMedia :: "jsstring \<Rightarrow> bool" where
  "isMedia typeStr =
     (str_includes typeStr (js ''movie'') \<or>
      str_includes typeStr (js ''tvshow'') \<or>
      str_includes typeStr (js ''tvseries'') \<or>
      str_includes typeStr (js ''book'') \<or>
      str_includes typeStr (js ''game'') \<or>
      str_includes typeStr (js ''videogame'') \<or>
      str_includes typeStr (js ''anime''))"

definition isFashion :: "jsstring \<Rightarrow> bool" where
  "isFashion typeStr =
     (str_includes typeStr (js ''brand'') \<or>
      str_includes typeStr (js ''clothing'') \<or>
      str_includes typeStr (js ''fashion'') \<or>
      str_includes typeStr (js ''organization'') \<or>
      str_includes typeStr (js ''company'') \<or>
      str_includes typeStr (js ''corporation''))"

definition determineCategory :: "(16 word \<Rightarrow> jsstring) \<Rightarrow> kg_entity \<Rightarrow> jsstring" where
  "determineCategory lc entity =
     (let typeStr = typeString lc entity in
      if isMusic typeStr then js ''artists''
      else if isCelebrity typeStr then js ''celebrities''
      else if isMedia typeStr then js ''media''
      else if isFashion typeStr then js ''fashion''
      else js ''celebrities'')"

subsection \<open>Extracting an id from the entity identifier\<close>

definition isDigit :: "16 word \<Rightarrow> bool" where
  "isDigit c = (48 \<le> unat c \<and> unat c \<le> 57)"

definition isLower :: "16 word \<Rightarrow> bool" where
  "isLower c = (97 \<le> unat c \<and> unat c \<le> 122)"

definition isWordChar :: "16 word \<Rightarrow> bool" where
  "isWordChar c =
     ((97 \<le> unat c \<and> unat c \<le> 122) \<or> (65 \<le> unat c \<and> unat c \<le> 90) \<or>
      (48 \<le> unat c \<and> unat c \<le> 57) \<or> unat c = 95)"

text \<open>
  \<open>entityId.match(/wikidata\.org\/entity\/(Q\d+)/)\<close>: the leftmost position where the
  literal is followed by at least one digit; the group is \<open>Q\<close> and the longest run
  of digits.
\<close>

fun matchWikidata :: "jsstring \<Rightarrow> jsstring option" where
  "matchWikidata [] = None"
| "matchWikidata (c # cs) =
     (let lit = js ''wikidata.org/entity/Q'';
          ds = takeWhile isDigit (drop (length lit) (c # cs)) in
      if startsWith (c # cs) lit \<and> ds \<noteq> [] then Some (js ''Q'' @ ds)
      else matchWikidata cs)"

text \<open>\<open>entityId.match(/\/m\/([a-zA-Z0-9_]+)/)\<close>, in the same way.\<close>

fun matchFreebase :: "jsstring \<Rightarrow> jsstring option" where
  "matchFreebase [] = None"
| "matchFreebase (c # cs) =
     (let lit = js ''/m/'';
          ws = takeWhile isWordChar (drop (length lit) (c # cs)) in
      if startsWith (c # cs) lit \<and> ws \<noteq> [] then Some ws
      else matchFreebase cs)"

definition extractWikidataId :: "jsstring \<Rightarrow> jsstring option" where
  "extractWikidataId entityId =
     (if entityId = [] then None
      else
        (case truthy (matchWikidata entityId) of
           Some wikidataMatch \<Rightarrow> Some wikidataMatch
         | None \<Rightarrow>
             (case truthy (matchFreebase entityId) of
                Some freebaseMatch \<Rightarrow> Some freebaseMatch
              | None \<Rightarrow> None)))"

text \<open>\<open>type.replace(/^[a-z]+:/, "")\<close>: a leading run of lower-case letters and a colon.\<close>

definition stripNamespace :: "jsstring \<Rightarrow> jsstring" where
  "stripNamespace t =
     (let rest = dropWhile isLower t in
      if takeWhile isLower t \<noteq> [] \<and> startsWith rest (js '':'') then drop 1 rest else t)"

section \<open>The Wikipedia client\<close>

definition CACHE_TTL :: int where
  "CACHE_TTL = 24 * 60 * 60 * 1000"

definition WIKIPEDIA_API_BASE_URL :: jsstring where
  "WIKIPEDIA_API_BASE_URL = js ''https://ja.wikipedia.org/w/api.php''"

definition searchCacheKey :: "jsstring \<Rightarrow> int \<Rightarrow> jsstring" where
  "searchCacheKey query limit = js ''search_'' @ query @ js ''_'' @ numberToString limit"

text \<open>
  The \<open>try\<close> block of \<open>searchWikipedia\<close>. \<open>data.query.search\<close> raises TypeError
  when \<open>data.query\<close> is missing; a missing \<open>search\<close> gives the empty list.
\<close>

definition searchRequestUrl :: "jsstring \<Rightarrow> int \<Rightarrow> jsstring" where
  "searchRequestUrl encodedQuery limit =
     WIKIPEDIA_API_BASE_URL @ js ''?action=query&list=search&srsearch='' @ encodedQuery @
     js ''&format=json&srlimit='' @ numberToString limit @ js ''&origin=*''"

definition searchWikipedia_try ::
  "env \<Rightarrow> jsstring \<Rightarrow> int \<Rightarrow> state \<Rightarrow> search_result option list promise \<times> state" where
  "searchWikipedia_try e query limit s =
     (case encodeURIComponent query of
        Inl err \<Rightarrow> (Inl err, s)
      | Inr encodedQuery \<Rightarrow>
          let (r, s1) = doFetch e (searchRequestUrl encodedQuery limit) s in
          (case r of
             Rejected \<Rightarrow> (Inl TypeError, s1)
           | Resolved resp \<Rightarrow>
               if \<not> ok resp then
                 (Inl (Error (js ''Failed to search Wikipedia: '' @ statusText resp)), s1)
               else
                 (case body resp of
                    NotJson \<Rightarrow> (Inl SyntaxError, s1)
                  | Json (SearchResponse (Some search)) \<Rightarrow>
                      let results = (case search of None \<Rightarrow> [] | Some rs \<Rightarrow> rs);
                          (now, s2) = dateNow e s1 in
                      (Inr results,
                       s2\<lparr>searchCache :=
                            map_set (searchCacheKey query limit) (results, now)
                              (searchCache s2)\<rparr>)
                  | Json _ \<Rightarrow> (Inl TypeError, s1))))"

text \<open>The part of \<open>searchWikipedia\<close> after the cache check: the block and its \<open>catch\<close>.\<close>

definition searchWikipedia_miss ::
  "env \<Rightarrow> jsstring \<Rightarrow> int \<Rightarrow> state \<Rightarrow> search_result option list promise \<times> state" where
  "searchWikipedia_miss e query limit s =
     (case searchWikipedia_try e query limit s of
        (Inl err, s') \<Rightarrow> (Inr [], s')
      | (Inr results, s') \<Rightarrow> (Inr results, s'))"

text \<open>\<open>searchWikipedia(query, limit = 5)\<close>.\<close>

definition searchWikipedia ::
  "env \<Rightarrow> jsstring \<Rightarrow> int \<Rightarrow> state \<Rightarrow> search_result option list promise \<times> state" where
  "searchWikipedia e query limit s =
     (case map_get (searchCacheKey query limit) (searchCache s) of
        Some (data, timestamp) \<Rightarrow>
          let (now, s1) = dateNow e s in
          if now - timestamp < CACHE_TTL then (Inr data, s1)
          else
            searchWikipedia_miss e query limit
              (s1\<lparr>searchCache := map_delete (searchCacheKey query limit) (searchCache s1)\<rparr>)
      | None \<Rightarrow> searchWikipedia_miss e query limit s)"

text \<open>
  \<open>getWikipediaContent(pageId)\<close> runs in two parts. The first part runs without
  suspension up to the \<open>await\<close> of \<open>fetch\<close>: it reads the cache and, unless a fresh
  entry answers, issues the request. The second part runs when the response has
  arrived. Callers that await the function at once run the two parts back to back;
  \<open>getWikipediaRecommendations\<close> starts every call before any of them continues.
\<close>

datatype content_pending = Cached "wiki_page option" | Fetching fetch_result

definition contentCacheKey :: "jsstring \<Rightarrow> jsstring" where
  "contentCacheKey pageId = js ''content_'' @ pageId"

definition contentRequestUrl :: "jsstring \<Rightarrow> jsstring" where
  "contentRequestUrl pageId =
     WIKIPEDIA_API_BASE_URL @
     js ''?action=query&prop=extracts|pageimages&exintro=1&explaintext=1&pageids='' @
     pageId @ js ''&format=json&pithumbsize=500&origin=*''"

definition getWikipediaContent_start ::
  "env \<Rightarrow> jsstring \<Rightarrow> state \<Rightarrow> content_pending \<times> state" where
  "getWikipediaContent_start e pageId s =
     (let u = contentRequestUrl pageId in
      case map_get (contentCacheKey pageId) (contentCache s) of
        Some (data, timestamp) \<Rightarrow>
          let (now, s1) = dateNow e s in
          if now - timestamp < CACHE_TTL then (Cached data, s1)
          else
            let (r, s2) =
                  doFetch e u
                    (s1\<lparr>contentCache := map_delete (contentCacheKey pageId) (contentCache s1)\<rparr>)
            in (Fetching r, s2)
      | None \<Rightarrow> let (r, s1) = doFetch e u s in (Fetching r, s1))"

text \<open>
  The rest of the \<open>try\<close> block once the response \<open>r\<close> is there. \<open>data.query.pages\<close>
  raises TypeError when \<open>data.query\<close> is missing and so does indexing a missing
  \<open>pages\<close>; a page that is not listed is undefined, which is cached and returned.
\<close>

definition getWikipediaContent_try ::
  "env \<Rightarrow> jsstring \<Rightarrow> fetch_result \<Rightarrow> state \<Rightarrow> wiki_page option promise \<times> state" where
  "getWikipediaContent_try e pageId r s =
     (case r of
        Rejected \<Rightarrow> (Inl TypeError, s)
      | Resolved resp \<Rightarrow>
          if \<not> ok resp then
            (Inl (Error (js ''Failed to get Wikipedia content: '' @ statusText resp)), s)
          else
            (case body resp of
               NotJson \<Rightarrow> (Inl SyntaxError, s)
             | Json (ContentResponse (Some (Some pages))) \<Rightarrow>
                 let page = map_of pages pageId;
                     (now, s1) = dateNow e s in
                 (Inr page,
                  s1\<lparr>contentCache :=
                       map_set (contentCacheKey pageId) (page, now) (contentCache s1)\<rparr>)
             | Json _ \<Rightarrow> (Inl TypeError, s)))"

definition getWikipediaContent_finish ::
  "env \<Rightarrow> jsstring \<Rightarrow> content_pending \<Rightarrow> state \<Rightarrow> wiki_page option promise \<times> state" where
  "getWikipediaContent_finish e pageId p s =
     (case p of
        Cached data \<Rightarrow> (Inr data, s)
      | Fetching r \<Rightarrow>
          (case getWikipediaContent_try e pageId r s of
             (Inl err, s') \<Rightarrow> (Inr None, s')
           | (Inr page, s') \<Rightarrow> (Inr page, s')))"

definition getWikipediaContent ::
  "env \<Rightarrow> jsstring \<Rightarrow> state \<Rightarrow> wiki_page option promise \<times> state" where
  "getWikipediaContent e pageId s =
     (let (p, s1) = getWikipediaContent_start e pageId s in
      getWikipediaContent_finish e pageId p s1)"

text \<open>
  The first feature of an item:
  \<open>content.extract ? content.extract.substring(0, 100) + "..." : "..."\<close>.
  \<open>substring(0, 100)\<close> keeps the first 100 code units; on a truthy value that is
  not a string the call raises TypeError.
\<close>

definition extractFeature :: "json_value option \<Rightarrow> js_error + jsstring" where
  "extractFeature x =
     (case x of
        Some (JString t) \<Rightarrow>
          if t \<noteq> [] then Inr (take 100 t @ js ''...'')
          else
            Inr [0x8A73, 0x7D30, 0x60C5, 0x5831, 0x306F, 0x0057, 0x0069, 0x006B,
                 0x0069, 0x0070, 0x0065, 0x0064, 0x0069, 0x0061, 0x3092, 0x3054,
                 0x89A7, 0x304F, 0x3060, 0x3055, 0x3044, 0x3002]
      | Some JOther \<Rightarrow> Inl TypeError
      | None \<Rightarrow>
          Inr [0x8A73, 0x7D30, 0x60C5, 0x5831, 0x306F, 0x0057, 0x0069, 0x006B,
               0x0069, 0x0070, 0x0065, 0x0064, 0x0069, 0x0061, 0x3092, 0x3054,
               0x89A7, 0x304F, 0x3060, 0x3055, 0x3044, 0x3002])"

text \<open>
  The callback of \<open>topResults.map\<close> after its \<open>await\<close>: null for a falsy content,
  else the item, unless building the item raises.
\<close>

definition wikipediaItem ::
  "jsstring \<Rightarrow> wiki_page option \<Rightarrow> recommendation_item option promise" where
  "wikipediaItem query content =
     (case content of
        None \<Rightarrow> Inr None
      | Some c \<Rightarrow>
          (case extractFeature (page_extract c) of
             Inl err \<Rightarrow> Inl err
           | Inr feature \<Rightarrow>
               Inr (Some
                 \<lparr>item_name = title c,
                  reason =
                    [0x0057, 0x0069, 0x006B, 0x0069, 0x0070, 0x0065, 0x0064, 0x0069, 0x0061,
                     0x3067, 0x300C] @ query @
                    [0x300D, 0x306B, 0x95A2, 0x9023, 0x3059, 0x308B, 0x60C5, 0x5831, 0x3068,
                     0x3057, 0x3066, 0x898B, 0x3064, 0x304B, 0x308A, 0x307E, 0x3057, 0x305F,
                     0x3002],
                  features =
                    [feature,
                     [0x4FE1, 0x983C, 0x6027, 0x306E, 0x9AD8, 0x3044, 0x60C5, 0x5831, 0x6E90],
                     [0x5E45, 0x5E83, 0x3044, 0x30C8, 0x30D4, 0x30C3, 0x30AF, 0x3092, 0x30AB,
                      0x30D0, 0x30FC]],
                  imageUrl =
                    (case thumbnail c of
                       Some t \<Rightarrow> source t
                     | None \<Rightarrow> Some (js ''/placeholder.svg'')),
                  officialUrl = js ''https://ja.wikipedia.org/?curid='' @ pageid c,
                  apiData = WikipediaData (pageid c) (page_extract c)\<rparr>)))"

text \<open>
  The callbacks of \<open>topResults.map\<close> up to their \<open>await\<close>: each is started in turn.
  On a null result reading \<open>result.pageid\<close> raises TypeError and no call is made
  (\<open>None\<close>); otherwise \<open>getWikipediaContent(result.pageid)\<close> is started.
\<close>

fun startAll ::
  "env \<Rightarrow> search_result option list \<Rightarrow> state \<Rightarrow>
     (jsstring \<times> content_pending) option list \<times> state" where
  "startAll e [] s = ([], s)"
| "startAll e (None # rs) s =
     (let (ps, s1) = startAll e rs s in (None # ps, s1))"
| "startAll e (Some r # rs) s =
     (let (p, s1) = getWikipediaContent_start e (sr_pageid r) s;
          (ps, s2) = startAll e rs s1
      in (Some (sr_pageid r, p) # ps, s2))"

text \<open>
  Then each started call is completed; the responses are taken to arrive in the
  order the requests were issued. The outcome of a callback at its \<open>await\<close> is the
  content, or the TypeError raised before it.
\<close>

fun finishAll ::
  "env \<Rightarrow> (jsstring \<times> content_pending) option list \<Rightarrow> state \<Rightarrow>
     wiki_page option promise list \<times> state" where
  "finishAll e [] s = ([], s)"
| "finishAll e (None # ps) s =
     (let (cs, s1) = finishAll e ps s in (Inl TypeError # cs, s1))"
| "finishAll e (Some (i, p) # ps) s =
     (let (c, s1) = getWikipediaContent_finish e i p s;
          (cs, s2) = finishAll e ps s1
      in (c # cs, s2))"

text \<open>\<open>Promise.all\<close>: rejected as soon as one of the promises is.\<close>

fun promiseAll :: "'a promise list \<Rightarrow> 'a list promise" where
  "promiseAll [] = Inr []"
| "promiseAll (Inl err # ps) = Inl err"
| "promiseAll (Inr v # ps) = (case promiseAll ps of Inl err \<Rightarrow> Inl err | Inr vs \<Rightarrow> Inr (v # vs))"

text \<open>The contents the callbacks receive, one outcome per top result.\<close>

definition fetchContents ::
  "env \<Rightarrow> search_result option list \<Rightarrow> state \<Rightarrow> wiki_page option promise list \<times> state" where
  "fetchContents e topResults s =
     (let (pending, s1) = startAll e topResults s in finishAll e pending s1)"

text \<open>The value of a callback: the error raised before the \<open>await\<close>, or what the rest gives.\<close>

definition callbackResult ::
  "jsstring \<Rightarrow> wiki_page option promise \<Rightarrow> recommendation_item option promise" where
  "callbackResult query c =
     (case c of Inl err \<Rightarrow> Inl err | Inr content \<Rightarrow> wikipediaItem query content)"

text \<open>
  The \<open>try\<close> block of \<open>getWikipediaRecommendations\<close>. The state returned is the one
  reached when every started call has completed, also when \<open>Promise.all\<close> is
  rejected before that.
\<close>

definition getWikipediaRecommendations_try ::
  "env \<Rightarrow> jsstring \<Rightarrow> int \<Rightarrow> state \<Rightarrow> recommendation_item list promise \<times> state" where
  "getWikipediaRecommendations_try e query limit s =
     (case searchWikipedia e query limit s of
        (Inl err, s1) \<Rightarrow> (Inl err, s1)
      | (Inr searchResults, s1) \<Rightarrow>
          if searchResults = [] then (Inr [], s1)
          else
            let topResults = slice0 limit searchResults;
                (contents, s2) = fetchContents e topResults s1
            in (case promiseAll (map (callbackResult query) contents) of
                  Inl err \<Rightarrow> (Inl err, s2)
                | Inr recommendations \<Rightarrow> (Inr (filterTruthy recommendations), s2)))"

text \<open>\<open>getWikipediaRecommendations(query, limit = 5)\<close>.\<close>

definition getWikipediaRecommendations ::
  "env \<Rightarrow> jsstring \<Rightarrow> int \<Rightarrow> state \<Rightarrow> recommendation_item list promise \<times> state" where
  "getWikipediaRecommendations e query limit s =
     (case getWikipediaRecommendations_try e query limit s of
        (Inl err, s') \<Rightarrow> (Inr [], s')
      | (Inr items, s') \<Rightarrow> (Inr items, s'))"

section \<open>Knowledge Graph image resolution and conversion\<close>

definition proxied :: "jsstring \<Rightarrow> state \<Rightarrow> jsstring promise \<times> state" where
  "proxied u s =
     (let (r, c) = getProxiedImageUrl (Some u) (urlCache s) in (r, s\<lparr>urlCache := c\<rparr>))"

text \<open>
  \<open>getKnowledgeGraphImageUrl(entity)\<close>. \<open>extractWikidataId\<close> is given \<open>entity["@id"]\<close>
  and its result, whichever pattern produced it, is passed to \<open>getWikipediaContent\<close>.
\<close>

definition getKnowledgeGraphImageUrl :: "env \<Rightarrow> kg_entity \<Rightarrow> state \<Rightarrow> jsstring promise \<times> state" where
  "getKnowledgeGraphImageUrl e entity s =
     (case truthy (map_option contentUrl (kg_image entity)) of
        Some cu \<Rightarrow> proxied cu s
      | None \<Rightarrow>
          (case truthy (map_option img_url (kg_image entity)) of
             Some iu \<Rightarrow> proxied iu s
           | None \<Rightarrow>
               (case truthy (extractWikidataId (at_id entity)) of
                  None \<Rightarrow> (Inr placeholder, s)
                | Some wikidataId \<Rightarrow>
                    (case getWikipediaContent e wikidataId s of
                       (Inl err, s1) \<Rightarrow> (Inl err, s1)
                     | (Inr wikipediaContent, s1) \<Rightarrow>
                         (case truthy (Option.bind (Option.bind wikipediaContent thumbnail) source) of
                            Some src \<Rightarrow> proxied src s1
                          | None \<Rightarrow> (Inr placeholder, s1))))))"

text \<open>
  \<open>convertToRecommendationItem(entity)\<close>. The image is resolved first; the object
  literal then reads \<open>entity["@type"].slice\<close>, which raises TypeError when the field
  is missing. \<open>filter(Boolean)\<close> drops the empty strings.
\<close>

definition convertToRecommendationItem ::
  "env \<Rightarrow> kg_entity \<Rightarrow> state \<Rightarrow> recommendation_item promise \<times> state" where
  "convertToRecommendationItem e entity s =
     (case getKnowledgeGraphImageUrl e entity s of
        (Inl err, s1) \<Rightarrow> (Inl err, s1)
      | (Inr img, s1) \<Rightarrow>
          (case at_type entity of
             None \<Rightarrow> (Inl TypeError, s1)
           | Some types \<Rightarrow>
               (Inr \<lparr>item_name = name entity,
                     reason =
                       orElse (map_option articleBody (detailedDescription entity))
                         (orElse (description entity)
                            (name entity @
                             [0x306B, 0x95A2, 0x3059, 0x308B, 0x60C5, 0x5831, 0x3067, 0x3059,
                              0x3002])),
                     features =
                       filter (\<lambda>f. f \<noteq> [])
                         (map stripNamespace (take 3 types) @
                          [case truthy (ent_url entity) of
                             Some u \<Rightarrow> [0x516C, 0x5F0F, 0x30B5, 0x30A4, 0x30C8, 0x3042, 0x308A]
                           | None \<Rightarrow> []]),
                     imageUrl = Some img,
                     officialUrl =
                       orElse (ent_url entity)
                         (orElse (map_option dd_url (detailedDescription entity)) (js ''#'')),
                     apiData = KnowledgeGraphData (at_id entity) types\<rparr>,
                s1)))"

section \<open>Concrete environments and inputs\<close>

definition emptyState :: state where
  "emptyState =
     \<lparr>ticks = 0, requests = [], kgSearchCache = [], searchCache = [], contentCache = [],
      urlCache = []\<rparr>"

text \<open>A URL cache filled by three calls of \<open>getTMDbImageUrl\<close>.\<close>

definition threeEntryCache :: url_cache where
  "threeEntryCache =
     snd (getTMDbImageUrl (Some (js ''/c.jpg'')) (js ''w500'')
       (snd (getTMDbImageUrl (Some (js ''/b.jpg'')) (js ''w500'')
         (snd (getTMDbImageUrl (Some (js ''/a.jpg'')) (js ''w500'') [])))))"

text \<open>No API key is set, and every request fails.\<close>

definition noKeyEnv :: env where
  "noKeyEnv = \<lparr>apiKey = None, clock = (\<lambda>n. 0), fetch = (\<lambda>n u. Rejected)\<rparr>"

text \<open>
  An entity of the older Knowledge Graph responses, identified by a Freebase id,
  with no image; and a Wikipedia that answers every request with an error document.
\<close>

definition freebaseEntity :: kg_entity where
  "freebaseEntity =
     \<lparr>at_id = js ''kg:/m/0dl567'', name = js ''Taylor Swift'',
      at_type = Some [js ''Person'', js ''Thing''], description = None,
      detailedDescription = None, kg_image = None, ent_url = None\<rparr>"

definition errorDocumentEnv :: env where
  "errorDocumentEnv =
     \<lparr>apiKey = Some (js ''k''), clock = (\<lambda>n. 0),
      fetch = (\<lambda>n u. Resolved \<lparr>ok = True, statusText = js ''OK'',
                                  body = Json (ContentResponse None)\<rparr>)\<rparr>"

text \<open>
  A Wikipedia whose search finds page 42 and whose content for it has a thumbnail
  object without a \<open>source\<close>.
\<close>

definition bareThumbnailPage :: wiki_page where
  "bareThumbnailPage =
     \<lparr>pageid = js ''42'', title = js ''T'', page_extract = Some (JString (js ''text'')),
      thumbnail = Some \<lparr>source = None\<rparr>\<rparr>"

definition bareThumbnailEnv :: env where
  "bareThumbnailEnv =
     \<lparr>apiKey = None, clock = (\<lambda>n. 0),
      fetch = (\<lambda>n u.
        if n = 0 then
          Resolved \<lparr>ok = True, statusText = js ''OK'',
                    body = Json (SearchResponse (Some (Some [Some \<lparr>sr_pageid = js ''42''\<rparr>])))\<rparr>
        else
          Resolved \<lparr>ok = True, statusText = js ''OK'',
                    body = Json (ContentResponse
                                   (Some (Some [(js ''42'', bareThumbnailPage)])))\<rparr>)\<rparr>"

text \<open>An entity without \<open>"@type"\<close>, without an image and without an id to extract.\<close>

definition untypedEntity :: kg_entity where
  "untypedEntity =
     \<lparr>at_id = js ''kg:unknown'', name = js ''X'', at_type = None, description = None,
      detailedDescription = None, kg_image = None, ent_url = None\<rparr>"

text \<open>A key is set; the Knowledge Graph answers 403, or with a null and one entity.\<close>

definition forbiddenEnv :: env where
  "forbiddenEnv =
     \<lparr>apiKey = Some (js ''k''), clock = (\<lambda>n. 0),
      fetch = (\<lambda>n u. Resolved \<lparr>ok = False, statusText = js ''Forbidden'', body = NotJson\<rparr>)\<rparr>"

definition oneEntityEnv :: env where
  "oneEntityEnv =
     \<lparr>apiKey = Some (js ''k''), clock = (\<lambda>n. 0),
      fetch = (\<lambda>n u. Resolved \<lparr>ok = True, statusText = js ''OK'',
         body = Json (KnowledgeGraphResponse
                  (Some [\<lparr>result = None\<rparr>, \<lparr>result = Some freebaseEntity\<rparr>]))\<rparr>)\<rparr>"

text \<open>An entity tagged both as a music group and as an actor.\<close>

definition musicActorEntity :: kg_entity where
  "musicActorEntity =
     \<lparr>at_id = js ''kg:/g/1'', name = js ''N'', at_type = Some [js ''MusicGroup'', js ''Actor''],
      description = None, detailedDescription = None, kg_image = None, ent_url = None\<rparr>"

text \<open>
  A Wikipedia whose search always finds page 42, with a clock given by \<open>c\<close>; and
  the state after \<open>searchWikipedia("x", 5)\<close> has cached that result at time 0.
\<close>

definition searchResultsEnv :: "(nat \<Rightarrow> int) \<Rightarrow> env" where
  "searchResultsEnv c =
     \<lparr>apiKey = None, clock = c,
      fetch = (\<lambda>n u. Resolved \<lparr>ok = True, statusText = js ''OK'',
                 body = Json (SearchResponse (Some (Some [Some \<lparr>sr_pageid = js ''42''\<rparr>])))\<rparr>)\<rparr>"

definition cachedSearchState :: state where
  "cachedSearchState =
     \<lparr>ticks = 1, requests = [searchRequestUrl (js ''x'') 5], kgSearchCache = [],
      searchCache = [(searchCacheKey (js ''x'') 5, ([Some \<lparr>sr_pageid = js ''42''\<rparr>], 0))],
      contentCache = [], urlCache = []\<rparr>"





section \<open>The URL cache\<close>

lemma map_delete_first:
  "distinct (map_keys ((k, v) # c)) \<Longrightarrow> map_delete k ((k, v) # c) = c"
  by (auto simp: map_delete_def map_keys_def filter_id_conv rev_image_eqI)

lemma threeEntryCache_eq:
  "threeEntryCache =
     [(js ''tmdb_/a.jpg_w500'', js ''https://image.tmdb.org/t/p/w500/a.jpg''),
      (js ''tmdb_/b.jpg_w500'', js ''https://image.tmdb.org/t/p/w500/b.jpg''),
      (js ''tmdb_/c.jpg_w500'', js ''https://image.tmdb.org/t/p/w500/c.jpg'')]"
  by (simp add: threeEntryCache_def getTMDbImageUrl_def map_get_def js_def Let_def)

text \<open>
  C1, as the code has it: on a cache with distinct keys (every \<open>Map\<close> has them),
  \<open>limitCacheSize(maxSize)\<close> removes the first entry in iteration order when the
  cache holds more than \<open>maxSize\<close> entries and changes nothing otherwise. On a cache
  of exactly 3 entries \<open>limitCacheSize(1)\<close> therefore leaves exactly 2 entries, the
  second and the third inserted, and the first inserted key is gone.
\<close>

theorem limitCacheSize_deletes_first_entry:
  assumes "distinct (map_keys c)"
  shows "limitCacheSize maxSize c = (if maxSize < int (map_size c) then tl c else c) \<and>
         (map_size c = 3 \<longrightarrow>
            map_size (limitCacheSize 1 c) = 2 \<and>
            map_keys (limitCacheSize 1 c) = tl (map_keys c) \<and>
            hd (map_keys c) \<notin> set (map_keys (limitCacheSize 1 c)))"
proof -
  have general: "limitCacheSize m c = (if m < int (map_size c) then tl c else c)" for m
  proof (cases c)
    case Nil
    then show ?thesis by (simp add: limitCacheSize_def map_keys_def)
  next
    case (Cons p ps)
    obtain k v where p: "p = (k, v)" by (cases p)
    from assms Cons p have "map_delete k ((k, v) # ps) = ps"
      by (intro map_delete_first) simp
    with Cons p show ?thesis
      by (simp add: limitCacheSize_def map_keys_def)
  qed
  have three: "map_size (limitCacheSize 1 c) = 2 \<and>
            map_keys (limitCacheSize 1 c) = tl (map_keys c) \<and>
            hd (map_keys c) \<notin> set (map_keys (limitCacheSize 1 c))" if "map_size c = 3"
  proof -
    from that obtain p ps where c: "c = p # ps" and ps: "length ps = 2"
      by (cases c) (auto simp: map_size_def)
    from general [of 1] that c have eq: "limitCacheSize 1 c = ps" by simp
    from assms c have "fst p \<notin> set (map fst ps)" by (simp add: map_keys_def)
    with eq c ps show ?thesis by (simp add: map_size_def map_keys_def)
  qed
  from general three show ?thesis by blast
qed

text \<open>
  C1, witness: the cache filled by three calls of \<open>getTMDbImageUrl\<close> has three
  distinct keys, and \<open>limitCacheSize(1)\<close> leaves the second and the third.
\<close>

theorem limitCacheSize_deletes_first_entry_witness:
  "distinct (map_keys threeEntryCache) \<and> map_size threeEntryCache = 3 \<and>
   map_size (limitCacheSize 1 threeEntryCache) = 2 \<and>
   map_keys (limitCacheSize 1 threeEntryCache) =
     [js ''tmdb_/b.jpg_w500'', js ''tmdb_/c.jpg_w500'']"
proof -
  have d: "distinct (map_keys threeEntryCache)"
    by (simp add: threeEntryCache_eq map_keys_def js_def)
  have n: "map_size threeEntryCache = 3"
    by (simp add: threeEntryCache_eq map_size_def)
  from limitCacheSize_deletes_first_entry [OF d, of 1] n
  have "limitCacheSize 1 threeEntryCache = tl threeEntryCache" by simp
  with d n show ?thesis
    by (simp add: threeEntryCache_eq map_keys_def map_size_def)
qed

text \<open>
  C1, counterexample to the claim as stated: the cache filled by three calls of
  \<open>getTMDbImageUrl\<close> holds 3 entries, and after \<open>limitCacheSize(1)\<close> it does not
  hold exactly 1.
\<close>

theorem limitCacheSize_three_entries_counterexample:
  "map_size threeEntryCache = 3 \<and> map_size (limitCacheSize 1 threeEntryCache) \<noteq> 1"
  by (simp add: threeEntryCache_eq limitCacheSize_def map_size_def map_keys_def
      map_delete_def js_def)

section \<open>The URL builders\<close>

text \<open>
  What does hold for the builders. Every value the builders store is non-empty, and
  on a cache with that property \<open>getTMDbImageUrl\<close> always returns a non-empty
  URL; \<open>getProxiedImageUrl\<close> does so whenever it returns, but
  \<open>encodeURIComponent\<close> raises URIError on a lone surrogate.
\<close>

lemma placeholder_nonempty: "placeholder \<noteq> []"
  by (simp add: placeholder_def js_def)

lemma map_get_in_values:
  "\<forall>p\<in>set c. snd p \<noteq> [] \<Longrightarrow> map_get k c = Some v \<Longrightarrow> v \<noteq> []"
proof -
  assume inv: "\<forall>p\<in>set c. snd p \<noteq> []" and g: "map_get k c = Some v"
  from g have "(k, v) \<in> set c" by (simp add: map_get_def map_of_SomeD)
  with inv have "snd (k, v) \<noteq> []" by blast
  then show ?thesis by simp
qed

lemma map_set_nonempty_values:
  "\<forall>p\<in>set c. snd p \<noteq> [] \<Longrightarrow> v \<noteq> [] \<Longrightarrow> \<forall>p\<in>set (map_set k v c). snd p \<noteq> []"
  by (induction c) auto

lemma getTMDbImageUrl_total:
  assumes inv: "\<forall>p\<in>set c. snd p \<noteq> []"
  shows "\<exists>r c'. getTMDbImageUrl p sz c = (Inr r, c') \<and> r \<noteq> [] \<and> (\<forall>p\<in>set c'. snd p \<noteq> [])"
proof (cases "truthy p")
  case None
  then have "getTMDbImageUrl p sz c = (Inr placeholder, c)"
    by (cases p) (simp_all add: getTMDbImageUrl_def truthy_def split: if_splits)
  with inv placeholder_nonempty show ?thesis by simp
next
  case (Some x)
  then have p: "p = Some x" and x: "x \<noteq> []"
    by (cases p; simp add: truthy_def split: if_splits)+
  show ?thesis
  proof (cases "map_get (js ''tmdb_'' @ x @ js ''_'' @ sz) c")
    case (Some v)
    with p x have "getTMDbImageUrl p sz c = (Inr v, c)" by (simp add: getTMDbImageUrl_def)
    with inv map_get_in_values [OF inv Some] show ?thesis by simp
  next
    case None
    have ne: "js ''https://image.tmdb.org/t/p/'' @ sz @ x \<noteq> []" by (simp add: js_def)
    from None p x have "getTMDbImageUrl p sz c =
      (Inr (js ''https://image.tmdb.org/t/p/'' @ sz @ x),
       map_set (js ''tmdb_'' @ x @ js ''_'' @ sz) (js ''https://image.tmdb.org/t/p/'' @ sz @ x) c)"
      by (simp add: getTMDbImageUrl_def Let_def)
    with map_set_nonempty_values [OF inv ne] ne show ?thesis by simp
  qed
qed

lemma getProxiedImageUrl_nonempty:
  assumes inv: "\<forall>p\<in>set c. snd p \<noteq> []" and res: "getProxiedImageUrl u c = (Inr r, c')"
  shows "r \<noteq> [] \<and> (\<forall>p\<in>set c'. snd p \<noteq> [])"
proof (cases "truthy u")
  case None
  then have "getProxiedImageUrl u c = (Inr placeholder, c)"
    by (cases u) (simp_all add: getProxiedImageUrl_def truthy_def split: if_splits)
  with res have "r = placeholder" "c' = c" by simp_all
  with inv placeholder_nonempty show ?thesis by simp
next
  case (Some x)
  then have u: "u = Some x" and x: "x \<noteq> []"
    by (cases u; simp add: truthy_def split: if_splits)+
  show ?thesis
  proof (cases "map_get (js ''proxy_'' @ x) c")
    case (Some v)
    with u x have "getProxiedImageUrl u c = (Inr v, c)" by (simp add: getProxiedImageUrl_def)
    with res have "r = v" "c' = c" by simp_all
    with inv map_get_in_values [OF inv Some] show ?thesis by simp
  next
    case None
    show ?thesis
    proof (cases "encodeURIComponent x")
      case (Inl err)
      with None u x have "getProxiedImageUrl u c = (Inl err, c)"
        by (simp add: getProxiedImageUrl_def)
      with res show ?thesis by simp
    next
      case (Inr enc)
      with None u x have "getProxiedImageUrl u c =
        (Inr (js ''/api/image-proxy?url='' @ enc),
         map_set (js ''proxy_'' @ x) (js ''/api/image-proxy?url='' @ enc) c)"
        by (simp add: getProxiedImageUrl_def Let_def)
      with res have r: "r = js ''/api/image-proxy?url='' @ enc"
        and c': "c' = map_set (js ''proxy_'' @ x) (js ''/api/image-proxy?url='' @ enc) c"
        by auto
      have ne: "js ''/api/image-proxy?url='' @ enc \<noteq> []" by (simp add: js_def)
      from map_set_nonempty_values [OF inv ne] r c' ne show ?thesis by simp
    qed
  qed
qed

lemma getProxiedImageUrl_lone_surrogate:
  "getProxiedImageUrl (Some [0xD800]) [] = (Inl URIError, [])"
  by (simp add: getProxiedImageUrl_def map_get_def isUnreserved_def isLowSurrogate_def
      isHighSurrogate_def js_def)

text \<open>
  C4, the code at the input the claim names: when the first element of the images
  array is null or undefined, \<open>getSpotifyImageUrl\<close> raises TypeError (it reads
  \<open>images[0].url\<close>) instead of returning a URL; the cache is left as it was.
\<close>

theorem getSpotifyImageUrl_null_first_element:
  "getSpotifyImageUrl (Some (None # rest)) c = (Inl TypeError, c)"
  by (simp add: getSpotifyImageUrl_def)

section \<open>searchEntities\<close>

lemma map_get_map_set: "map_get k (map_set k v m) = Some v"
  by (induction m) (auto simp: map_get_def)

lemma searchEntities_try_failure_keeps_cache:
  "searchEntities_try e query types limit s = (Inl err, s') \<Longrightarrow>
     kgSearchCache s' = kgSearchCache s"
  by (auto simp: searchEntities_try_def doFetch_def Let_def
      split: sum.splits fetch_result.splits if_splits response_body.splits json.splits
        option.splits)

lemma kgRequestUrl_q:
  "kgRequestUrl (js ''k'') (js ''q'') [] 10 =
     Inr (js ''https://kgsearch.googleapis.com/v1/entities:search?query=q&key=k&limit=10&indent=true&languages=ja,en'')"
  by (simp add: kgRequestUrl_def js_def isUnreserved_def numberToString_def digits.simps)

text \<open>
  C2, as the code has it: when the API key is absent (or empty) and the cache has no
  entry for the key, the \<open>try\<close> block of \<open>searchEntities\<close> fails with the
  configuration error before any request is issued, and the \<open>catch\<close> of
  \<open>searchEntities\<close> turns it into the empty list: the caller receives \<open>[]\<close>, and
  the state (request log and caches) is unchanged.
\<close>

theorem searchEntities_missing_key:
  assumes "truthy (apiKey e) = None"
    and "map_get (kgCacheKey query types limit) (kgSearchCache s) = None"
  shows "searchEntities_try e query types limit s =
           (Inl (Error (js ''Google Knowledge Graph API key is not set in environment variables'')),
            s) \<and>
         searchEntities e query types limit s = (Inr [], s)"
  using assms by (simp add: searchEntities_def searchEntities_try_def getApiKey_def)

text \<open>C2, witness: no key in the environment, nothing cached.\<close>

theorem searchEntities_missing_key_witness:
  "truthy (apiKey noKeyEnv) = None \<and>
   map_get (kgCacheKey (js ''q'') [] 10) (kgSearchCache emptyState) = None \<and>
   searchEntities noKeyEnv (js ''q'') [] 10 emptyState = (Inr [], emptyState)"
proof -
  have a: "truthy (apiKey noKeyEnv) = None" by (simp add: noKeyEnv_def truthy_def)
  have b: "map_get (kgCacheKey (js ''q'') [] 10) (kgSearchCache emptyState) = None"
    by (simp add: emptyState_def map_get_def)
  from searchEntities_missing_key [OF a b] a b show ?thesis by simp
qed

text \<open>
  C2, counterexample to the claim as stated: with no key set and an empty cache,
  \<open>searchEntities("q", [], 10)\<close> is fulfilled with \<open>[]\<close>; no error reaches the
  caller.
\<close>

theorem searchEntities_missing_key_counterexample:
  "apiKey noKeyEnv = None \<and> kgSearchCache emptyState = [] \<and>
   searchEntities noKeyEnv (js ''q'') [] 10 emptyState = (Inr [], emptyState)"
  by (simp add: searchEntities_def searchEntities_try_def getApiKey_def noKeyEnv_def
      truthy_def emptyState_def map_get_def)

text \<open>
  C7: on a cache miss, (1) a response that is not 2xx makes \<open>searchEntities\<close> return
  \<open>[]\<close> with only the request logged; (2) whatever error the \<open>try\<close> block raises,
  \<open>searchEntities\<close> returns \<open>[]\<close> and the search cache is as before, so no entry
  exists for the key; (3) on a 2xx response with an \<open>itemListElement\<close> list, the
  results with the falsy ones filtered out are stored under the key and returned.
\<close>

theorem searchEntities_atomic_on_failure:
  assumes miss: "map_get (kgCacheKey query types limit) (kgSearchCache s) = None"
  shows "(\<forall>key u resp.
            getApiKey e = Inr key \<and> kgRequestUrl key query types limit = Inr u \<and>
            fetch e (length (requests s)) u = Resolved resp \<and> \<not> ok resp \<longrightarrow>
            searchEntities e query types limit s = (Inr [], s\<lparr>requests := requests s @ [u]\<rparr>)) \<and>
         (\<forall>err s'.
            searchEntities_try e query types limit s = (Inl err, s') \<longrightarrow>
            searchEntities e query types limit s = (Inr [], s') \<and>
            kgSearchCache s' = kgSearchCache s) \<and>
         (\<forall>key u resp items.
            getApiKey e = Inr key \<and> kgRequestUrl key query types limit = Inr u \<and>
            fetch e (length (requests s)) u = Resolved resp \<and> ok resp \<and>
            body resp = Json (KnowledgeGraphResponse (Some items)) \<longrightarrow>
            searchEntities e query types limit s =
              (Inr (filterTruthy (map result items)),
               s\<lparr>requests := requests s @ [u],
                 kgSearchCache :=
                   map_set (kgCacheKey query types limit) (filterTruthy (map result items))
                     (kgSearchCache s)\<rparr>) \<and>
            map_get (kgCacheKey query types limit)
              (kgSearchCache (snd (searchEntities e query types limit s))) =
              Some (filterTruthy (map result items)))"
proof -
  have a: "searchEntities e query types limit s = (Inr [], s\<lparr>requests := requests s @ [u]\<rparr>)"
    if "getApiKey e = Inr key" "kgRequestUrl key query types limit = Inr u"
       "fetch e (length (requests s)) u = Resolved resp" "\<not> ok resp" for key u resp
    using that miss by (simp add: searchEntities_def searchEntities_try_def doFetch_def)
  have b: "searchEntities e query types limit s = (Inr [], s') \<and>
           kgSearchCache s' = kgSearchCache s"
    if "searchEntities_try e query types limit s = (Inl err, s')" for err s'
    using that miss searchEntities_try_failure_keeps_cache [OF that]
    by (simp add: searchEntities_def)
  have c: "searchEntities e query types limit s =
              (Inr (filterTruthy (map result items)),
               s\<lparr>requests := requests s @ [u],
                 kgSearchCache :=
                   map_set (kgCacheKey query types limit) (filterTruthy (map result items))
                     (kgSearchCache s)\<rparr>) \<and>
            map_get (kgCacheKey query types limit)
              (kgSearchCache (snd (searchEntities e query types limit s))) =
              Some (filterTruthy (map result items))"
    if "getApiKey e = Inr key" "kgRequestUrl key query types limit = Inr u"
       "fetch e (length (requests s)) u = Resolved resp" "ok resp"
       "body resp = Json (KnowledgeGraphResponse (Some items))" for key u resp items
    using that miss
    by (simp add: searchEntities_def searchEntities_try_def doFetch_def map_get_map_set
        Let_def)
  from a b c show ?thesis by blast
qed

text \<open>
  C7, witness: with nothing cached, a 403 answer gives \<open>[]\<close> and leaves the cache
  empty; an answer listing a null and one entity gives that entity and caches it.
\<close>

theorem searchEntities_atomic_on_failure_witness:
  "map_get (kgCacheKey (js ''q'') [] 10) (kgSearchCache emptyState) = None \<and>
   fst (searchEntities forbiddenEnv (js ''q'') [] 10 emptyState) = Inr [] \<and>
   kgSearchCache (snd (searchEntities forbiddenEnv (js ''q'') [] 10 emptyState)) = [] \<and>
   fst (searchEntities oneEntityEnv (js ''q'') [] 10 emptyState) = Inr [freebaseEntity] \<and>
   kgSearchCache (snd (searchEntities oneEntityEnv (js ''q'') [] 10 emptyState)) =
     [(kgCacheKey (js ''q'') [] 10, [freebaseEntity])]"
proof -
  let ?u = "js ''https://kgsearch.googleapis.com/v1/entities:search?query=q&key=k&limit=10&indent=true&languages=ja,en''"
  have miss: "map_get (kgCacheKey (js ''q'') [] 10) (kgSearchCache emptyState) = None"
    by (simp add: emptyState_def map_get_def)
  have k1: "getApiKey forbiddenEnv = Inr (js ''k'')"
    by (simp add: getApiKey_def forbiddenEnv_def truthy_def js_def)
  have k2: "getApiKey oneEntityEnv = Inr (js ''k'')"
    by (simp add: getApiKey_def oneEntityEnv_def truthy_def js_def)
  have f1: "fetch forbiddenEnv (length (requests emptyState)) ?u =
     Resolved \<lparr>ok = False, statusText = js ''Forbidden'', body = NotJson\<rparr>"
    by (simp add: forbiddenEnv_def)
  have f2: "fetch oneEntityEnv (length (requests emptyState)) ?u =
     Resolved \<lparr>ok = True, statusText = js ''OK'',
         body = Json (KnowledgeGraphResponse
                  (Some [\<lparr>result = None\<rparr>, \<lparr>result = Some freebaseEntity\<rparr>]))\<rparr>"
    by (simp add: oneEntityEnv_def)
  note T = searchEntities_atomic_on_failure [OF miss]
  from T [of forbiddenEnv] k1 kgRequestUrl_q f1
  have A: "searchEntities forbiddenEnv (js ''q'') [] 10 emptyState =
     (Inr [], emptyState\<lparr>requests := requests emptyState @ [?u]\<rparr>)"
    by simp
  from T [of oneEntityEnv] k2 kgRequestUrl_q f2
  have B: "searchEntities oneEntityEnv (js ''q'') [] 10 emptyState =
     (Inr (filterTruthy (map result [\<lparr>result = None\<rparr>, \<lparr>result = Some freebaseEntity\<rparr>])),
      emptyState\<lparr>requests := requests emptyState @ [?u],
                 kgSearchCache :=
                   map_set (kgCacheKey (js ''q'') [] 10)
                     (filterTruthy
                        (map result [\<lparr>result = None\<rparr>, \<lparr>result = Some freebaseEntity\<rparr>]))
                     (kgSearchCache emptyState)\<rparr>)"
    by simp
  from miss A B show ?thesis by (simp add: emptyState_def)
qed

section \<open>determineCategory and convertToRecommendationItem\<close>

lemma determineCategory_no_type:
  "at_type entity = None \<or> at_type entity = Some [] \<Longrightarrow>
     determineCategory lc entity = js ''celebrities''"
  by (auto simp: determineCategory_def typeString_def toLowerCase_def isMusic_def
      isCelebrity_def isMedia_def isFashion_def js_def)

lemma untyped_no_id: "extractWikidataId (at_id untypedEntity) = None"
  by (simp add: untypedEntity_def extractWikidataId_def js_def truthy_def Let_def)

text \<open>
  C10: for an entity whose \<open>"@type"\<close> is missing, \<open>convertToRecommendationItem\<close>
  never produces an item: once the image is resolved, reading
  \<open>entity["@type"].slice\<close> raises TypeError (the only other outcome is that the
  image resolution itself was rejected). With no image and no id to extract it
  raises TypeError in the unchanged state. \<open>determineCategory\<close> on the same entity
  returns \<open>"celebrities"\<close>.
\<close>

theorem convertToRecommendationItem_missing_type:
  assumes "at_type entity = None"
  shows "(\<exists>err. fst (convertToRecommendationItem e entity s) = Inl err) \<and>
         (\<forall>u s1. getKnowledgeGraphImageUrl e entity s = (Inr u, s1) \<longrightarrow>
            convertToRecommendationItem e entity s = (Inl TypeError, s1)) \<and>
         (kg_image entity = None \<and> extractWikidataId (at_id entity) = None \<longrightarrow>
            convertToRecommendationItem e entity s = (Inl TypeError, s)) \<and>
         determineCategory lc entity = js ''celebrities''"
proof -
  have 1: "\<exists>err. fst (convertToRecommendationItem e entity s) = Inl err"
    using assms by (auto simp: convertToRecommendationItem_def split: prod.splits sum.splits)
  have 2: "\<forall>u s1. getKnowledgeGraphImageUrl e entity s = (Inr u, s1) \<longrightarrow>
            convertToRecommendationItem e entity s = (Inl TypeError, s1)"
    using assms by (simp add: convertToRecommendationItem_def)
  have 3: "kg_image entity = None \<and> extractWikidataId (at_id entity) = None \<longrightarrow>
            convertToRecommendationItem e entity s = (Inl TypeError, s)"
    using assms
    by (simp add: convertToRecommendationItem_def getKnowledgeGraphImageUrl_def truthy_def)
  from assms have 4: "determineCategory lc entity = js ''celebrities''"
    by (simp add: determineCategory_no_type)
  from 1 2 3 4 show ?thesis by blast
qed

text \<open>C10, witness: an entity with only an id and a name.\<close>

theorem convertToRecommendationItem_missing_type_witness:
  "at_type untypedEntity = None \<and>
   convertToRecommendationItem noKeyEnv untypedEntity emptyState = (Inl TypeError, emptyState)"
proof -
  have a: "at_type untypedEntity = None" by (simp add: untypedEntity_def)
  have b: "kg_image untypedEntity = None" by (simp add: untypedEntity_def)
  from convertToRecommendationItem_missing_type [OF a, of noKeyEnv emptyState] a b
    untyped_no_id
  show ?thesis by simp
qed

section \<open>The category of an entity\<close>

lemma startsWith_iff: "startsWith s p \<longleftrightarrow> (\<exists>b. s = p @ b)"
  by (induction s p rule: startsWith.induct) auto

lemma str_includes_iff: "str_includes s p \<longleftrightarrow> (\<exists>a b. s = a @ p @ b)"
proof (induction s)
  case Nil
  then show ?case by auto
next
  case (Cons c cs)
  show ?case
  proof
    assume "str_includes (c # cs) p"
    then consider "startsWith (c # cs) p" | "str_includes cs p" by auto
    then show "\<exists>a b. c # cs = a @ p @ b"
    proof cases
      case 1
      then obtain b where "c # cs = p @ b" by (auto simp: startsWith_iff)
      then have "c # cs = [] @ p @ b" by simp
      then show ?thesis by blast
    next
      case 2
      with Cons obtain a b where "cs = a @ p @ b" by auto
      then have "c # cs = (c # a) @ p @ b" by simp
      then show ?thesis by blast
    qed
  next
    assume "\<exists>a b. c # cs = a @ p @ b"
    then obtain a b where ab: "c # cs = a @ p @ b" by blast
    show "str_includes (c # cs) p"
    proof (cases a)
      case Nil
      with ab have "startsWith (c # cs) p" by (auto simp: startsWith_iff)
      then show ?thesis by simp
    next
      case (Cons x xs)
      with ab have "cs = xs @ p @ b" by simp
      with Cons.IH have "str_includes cs p" by blast
      then show ?thesis by simp
    qed
  qed
qed

lemma toLowerCase_append:
  "toLowerCase lc (a @ b) = toLowerCase lc a @ toLowerCase lc b"
  by (simp add: toLowerCase_def)

lemma join_contains: "x \<in> set xs \<Longrightarrow> \<exists>a b. join sep xs = a @ x @ b"
proof (induction sep xs rule: join.induct)
  case (1 sep)
  then show ?case by simp
next
  case (2 sep y)
  then have "join sep [y] = [] @ x @ []" by simp
  then show ?case by blast
next
  case (3 sep y z zs)
  show ?case
  proof (cases "x = y")
    case True
    then have "join sep (y # z # zs) = [] @ x @ (sep @ join sep (z # zs))" by simp
    then show ?thesis by blast
  next
    case False
    with 3 obtain a b where "join sep (z # zs) = a @ x @ b" by auto
    then have "join sep (y # z # zs) = (y @ sep @ a) @ x @ b" by simp
    then show ?thesis by blast
  qed
qed

lemma lower_MusicGroup: "toLowerCase lc (js ''MusicGroup'') = js ''musicgroup''"
  by (simp add: toLowerCase_def lowerUnit_def js_def)

lemma lower_Actor: "toLowerCase lc (js ''Actor'') = js ''actor''"
  by (simp add: toLowerCase_def lowerUnit_def js_def)

lemma typeString_includes:
  assumes "at_type entity = Some ts" and "t \<in> set ts"
  shows "str_includes (typeString lc entity) (toLowerCase lc t)"
proof -
  from join_contains [OF assms(2)] obtain a b where "join (js '' '') ts = a @ t @ b"
    by blast
  then have "typeString lc entity = toLowerCase lc a @ toLowerCase lc t @ toLowerCase lc b"
    using assms(1) by (simp add: typeString_def toLowerCase_append)
  then show ?thesis unfolding str_includes_iff by blast
qed

text \<open>
  C6: \<open>determineCategory\<close> is a function defined on every entity (and for every
  case table of the runtime), with one of the four categories as its value. An
  entity whose type tags are absent or empty is in \<open>"celebrities"\<close>. An entity
  whose tags contain both \<open>"MusicGroup"\<close> and \<open>"Actor"\<close> matches the music group
  and the celebrity group and is in \<open>"artists"\<close>. The groups are tried in the order
  music, celebrity, media, fashion, and the first that matches decides; with no match
  the result is \<open>"celebrities"\<close>.
\<close>

theorem determineCategory_first_group_wins:
  "(at_type entity = None \<or> at_type entity = Some [] \<longrightarrow>
      determineCategory lc entity = js ''celebrities'') \<and>
   (\<forall>ts. at_type entity = Some ts \<and> js ''MusicGroup'' \<in> set ts \<and> js ''Actor'' \<in> set ts \<longrightarrow>
      isMusic (typeString lc entity) \<and> isCelebrity (typeString lc entity) \<and>
      determineCategory lc entity = js ''artists'') \<and>
   (isMusic (typeString lc entity) \<longrightarrow> determineCategory lc entity = js ''artists'') \<and>
   (\<not> isMusic (typeString lc entity) \<and> isCelebrity (typeString lc entity) \<longrightarrow>
      determineCategory lc entity = js ''celebrities'') \<and>
   (\<not> isMusic (typeString lc entity) \<and> \<not> isCelebrity (typeString lc entity) \<and>
    isMedia (typeString lc entity) \<longrightarrow>
      determineCategory lc entity = js ''media'') \<and>
   (\<not> isMusic (typeString lc entity) \<and> \<not> isCelebrity (typeString lc entity) \<and>
    \<not> isMedia (typeString lc entity) \<and> isFashion (typeString lc entity) \<longrightarrow>
      determineCategory lc entity = js ''fashion'') \<and>
   (\<not> isMusic (typeString lc entity) \<and> \<not> isCelebrity (typeString lc entity) \<and>
    \<not> isMedia (typeString lc entity) \<and> \<not> isFashion (typeString lc entity) \<longrightarrow>
      determineCategory lc entity = js ''celebrities'') \<and>
   determineCategory lc entity \<in>
     {js ''artists'', js ''celebrities'', js ''media'', js ''fashion''}"
proof -
  have empty: "at_type entity = None \<or> at_type entity = Some [] \<longrightarrow>
      determineCategory lc entity = js ''celebrities''"
    by (simp add: determineCategory_no_type)
  have both: "isMusic (typeString lc entity) \<and> isCelebrity (typeString lc entity) \<and>
      determineCategory lc entity = js ''artists''"
    if "at_type entity = Some ts" "js ''MusicGroup'' \<in> set ts" "js ''Actor'' \<in> set ts" for ts
  proof -
    from typeString_includes [OF that(1) that(2), of lc]
    have m: "isMusic (typeString lc entity)" by (simp add: lower_MusicGroup isMusic_def)
    from typeString_includes [OF that(1) that(3), of lc]
    have c: "isCelebrity (typeString lc entity)" by (simp add: lower_Actor isCelebrity_def)
    from m c show ?thesis by (simp add: determineCategory_def)
  qed
  have order: "(isMusic (typeString lc entity) \<longrightarrow> determineCategory lc entity = js ''artists'') \<and>
   (\<not> isMusic (typeString lc entity) \<and> isCelebrity (typeString lc entity) \<longrightarrow>
      determineCategory lc entity = js ''celebrities'') \<and>
   (\<not> isMusic (typeString lc entity) \<and> \<not> isCelebrity (typeString lc entity) \<and>
    isMedia (typeString lc entity) \<longrightarrow>
      determineCategory lc entity = js ''media'') \<and>
   (\<not> isMusic (typeString lc entity) \<and> \<not> isCelebrity (typeString lc entity) \<and>
    \<not> isMedia (typeString lc entity) \<and> isFashion (typeString lc entity) \<longrightarrow>
      determineCategory lc entity = js ''fashion'') \<and>
   (\<not> isMusic (typeString lc entity) \<and> \<not> isCelebrity (typeString lc entity) \<and>
    \<not> isMedia (typeString lc entity) \<and> \<not> isFashion (typeString lc entity) \<longrightarrow>
      determineCategory lc entity = js ''celebrities'')"
    by (simp add: determineCategory_def)
  have range: "determineCategory lc entity \<in>
     {js ''artists'', js ''celebrities'', js ''media'', js ''fashion''}"
    by (simp add: determineCategory_def Let_def)
  from empty both order range show ?thesis by blast
qed

text \<open>C6, witness: the tags \<open>["MusicGroup", "Actor"]\<close>, and an entity without tags.\<close>

theorem determineCategory_first_group_wins_witness:
  "at_type musicActorEntity = Some [js ''MusicGroup'', js ''Actor''] \<and>
   determineCategory (\<lambda>c. [c]) musicActorEntity = js ''artists'' \<and>
   at_type untypedEntity = None \<and>
   determineCategory (\<lambda>c. [c]) untypedEntity = js ''celebrities''"
proof -
  have a: "at_type musicActorEntity = Some [js ''MusicGroup'', js ''Actor'']"
    by (simp add: musicActorEntity_def)
  have b: "at_type untypedEntity = None" by (simp add: untypedEntity_def)
  from determineCategory_first_group_wins [of musicActorEntity "\<lambda>c. [c]"] a
  have 1: "determineCategory (\<lambda>c. [c]) musicActorEntity = js ''artists''" by simp
  from determineCategory_first_group_wins [of untypedEntity "\<lambda>c. [c]"] b
  have 2: "determineCategory (\<lambda>c. [c]) untypedEntity = js ''celebrities''" by simp
  from a b 1 2 show ?thesis by simp
qed

section \<open>The search cache of the Wikipedia client\<close>





lemma encode_x: "encodeURIComponent (js ''x'') = Inr (js ''x'')"
  by (simp add: js_def isUnreserved_def)

lemma first_search:
  "searchWikipedia (searchResultsEnv (\<lambda>n. int n * c)) (js ''x'') 5 emptyState =
     (Inr [Some \<lparr>sr_pageid = js ''42''\<rparr>], cachedSearchState)"
  by (simp add: searchWikipedia_def searchWikipedia_miss_def searchWikipedia_try_def
      emptyState_def cachedSearchState_def searchResultsEnv_def map_get_def encode_x
      doFetch_def dateNow_def Let_def)



section \<open>getWikipediaRecommendations\<close>

lemma finish_never_rejects:
  "\<exists>c. fst (getWikipediaContent_finish e i p s) = Inr c"
proof (cases p)
  case (Cached d)
  then show ?thesis by (simp add: getWikipediaContent_finish_def)
next
  case (Fetching r)
  obtain x s' where t: "getWikipediaContent_try e i r s = (x, s')"
    by (cases "getWikipediaContent_try e i r s")
  with Fetching show ?thesis by (cases x) (simp_all add: getWikipediaContent_finish_def)
qed



















lemma bare_search:
  "searchWikipedia bareThumbnailEnv (js ''x'') 5 emptyState =
     (Inr [Some \<lparr>sr_pageid = js ''42''\<rparr>], cachedSearchState)"
  by (simp add: searchWikipedia_def searchWikipedia_miss_def searchWikipedia_try_def
      emptyState_def cachedSearchState_def bareThumbnailEnv_def map_get_def encode_x
      doFetch_def dateNow_def Let_def)


lemma bare_contents:
  "fetchContents bareThumbnailEnv [Some \<lparr>sr_pageid = js ''42''\<rparr>] cachedSearchState =
     ([Inr (Some bareThumbnailPage)],
      cachedSearchState\<lparr>ticks := 2,
        requests := [searchRequestUrl (js ''x'') 5, contentRequestUrl (js ''42'')],
        contentCache := [(contentCacheKey (js ''42''), (Some bareThumbnailPage, 0))]\<rparr>)"
  by (simp add: fetchContents_def getWikipediaContent_start_def getWikipediaContent_finish_def
      getWikipediaContent_try_def cachedSearchState_def bareThumbnailEnv_def map_get_def
      doFetch_def dateNow_def Let_def)











text \<open>
  C5, the code at a failing input: when the page content carries a thumbnail object
  without a \<open>source\<close>, the item \<open>getWikipediaRecommendations\<close> builds has an
  undefined \<open>imageUrl\<close>, since only \<open>content.thumbnail\<close> is tested before
  \<open>content.thumbnail.source\<close> is used.
\<close>

theorem wikipedia_item_without_image_source:
  "map_sum id (map imageUrl)
     (fst (getWikipediaRecommendations bareThumbnailEnv (js ''x'') 5 emptyState)) = Inr [None]"
  by (simp add: getWikipediaRecommendations_def getWikipediaRecommendations_try_def
      bare_search bare_contents slice0_def wikipediaItem_def extractFeature_def
      callbackResult_def bareThumbnailPage_def)

text \<open>
  The rest of the invariant holds on the Knowledge Graph side: an item that
  \<open>convertToRecommendationItem\<close> produces has no empty feature and has an image URL.
\<close>

lemma convertToRecommendationItem_features:
  assumes "convertToRecommendationItem e entity s = (Inr item, s')"
  shows "[] \<notin> set (features item) \<and> imageUrl item \<noteq> None"
  using assms
  by (auto simp: convertToRecommendationItem_def split: prod.splits sum.splits option.splits)

section \<open>Knowledge Graph image resolution\<close>

lemma matchFreebase_nonempty: "matchFreebase x = Some f \<Longrightarrow> f \<noteq> []"
  by (induction x) (auto simp: Let_def split: if_splits)

lemma matchWikidata_nonempty: "matchWikidata x = Some w \<Longrightarrow> w \<noteq> []"
  by (induction x) (auto simp: Let_def js_def split: if_splits)

lemma extractWikidataId_freebase:
  assumes "matchWikidata x = None" and "matchFreebase x = Some f"
  shows "extractWikidataId x = Some f"
proof -
  from assms(2) have "x \<noteq> []" by (cases x) auto
  with assms matchFreebase_nonempty [OF assms(2)] show ?thesis
    by (simp add: extractWikidataId_def truthy_def)
qed

lemma extractWikidataId_wikidata:
  assumes "matchWikidata x = Some w"
  shows "extractWikidataId x = Some w"
proof -
  from assms have "x \<noteq> []" by (cases x) auto
  with assms matchWikidata_nonempty [OF assms] show ?thesis
    by (simp add: extractWikidataId_def truthy_def)
qed

lemma extractWikidataId_nonempty: "extractWikidataId x = Some i \<Longrightarrow> i \<noteq> []"
  by (auto simp: extractWikidataId_def truthy_def split: if_splits option.splits)

lemma getWikipediaContent_try_requests:
  "requests (snd (getWikipediaContent_try e i r s)) = requests s"
  by (simp add: getWikipediaContent_try_def dateNow_def Let_def
      split: fetch_result.splits response_body.splits json.splits option.splits)

lemma getWikipediaContent_finish_requests:
  "requests (snd (getWikipediaContent_finish e i p s)) = requests s"
proof (cases p)
  case (Cached d)
  then show ?thesis by (simp add: getWikipediaContent_finish_def)
next
  case (Fetching r)
  obtain x s' where t: "getWikipediaContent_try e i r s = (x, s')"
    by (cases "getWikipediaContent_try e i r s")
  with getWikipediaContent_try_requests [of e i r s] have "requests s' = requests s" by simp
  with t Fetching show ?thesis by (cases x) (simp_all add: getWikipediaContent_finish_def)
qed

lemma getWikipediaContent_miss_requests:
  assumes "map_get (contentCacheKey i) (contentCache s) = None"
  shows "requests (snd (getWikipediaContent e i s)) = requests s @ [contentRequestUrl i]"
  using assms getWikipediaContent_finish_requests
  by (simp add: getWikipediaContent_def getWikipediaContent_start_def doFetch_def Let_def)

lemma getWikipediaContent_never_rejects: "\<exists>c. fst (getWikipediaContent e i s) = Inr c"
proof -
  obtain p s1 where "getWikipediaContent_start e i s = (p, s1)"
    by (cases "getWikipediaContent_start e i s")
  with finish_never_rejects [of e i p s1] show ?thesis
    by (simp add: getWikipediaContent_def)
qed

lemma proxied_requests: "requests (snd (proxied u s)) = requests s"
  by (simp add: proxied_def split: prod.splits)

lemma image_lookup:
  assumes "kg_image entity = None" and "extractWikidataId (at_id entity) = Some i"
    and "getWikipediaContent e i s = (Inr c, s1)"
  shows "getKnowledgeGraphImageUrl e entity s =
           (case truthy (Option.bind (Option.bind c thumbnail) source) of
              Some src \<Rightarrow> proxied src s1
            | None \<Rightarrow> (Inr placeholder, s1))"
  using assms extractWikidataId_nonempty [OF assms(2)]
  by (simp add: getKnowledgeGraphImageUrl_def truthy_def)

lemma image_lookup_requests:
  assumes "kg_image entity = None" and "extractWikidataId (at_id entity) = Some i"
    and "map_get (contentCacheKey i) (contentCache s) = None"
  shows "requests (snd (getKnowledgeGraphImageUrl e entity s)) =
           requests s @ [contentRequestUrl i]"
proof -
  obtain x s1 where g: "getWikipediaContent e i s = (x, s1)"
    by (cases "getWikipediaContent e i s")
  with getWikipediaContent_never_rejects [of e i s] obtain c where x: "x = Inr c" by auto
  from getWikipediaContent_miss_requests [OF assms(3), of e] g
  have r: "requests s1 = requests s @ [contentRequestUrl i]" by simp
  show ?thesis
  proof (cases "truthy (Option.bind (Option.bind c thumbnail) source)")
    case None
    with image_lookup [OF assms(1,2) g [unfolded x]] r show ?thesis by simp
  next
    case (Some src)
    with image_lookup [OF assms(1,2) g [unfolded x]] r proxied_requests [of src s1]
    show ?thesis by simp
  qed
qed

lemma rejected_content:
  "getWikipediaContent noKeyEnv i emptyState =
     (Inr None, emptyState\<lparr>requests := [contentRequestUrl i]\<rparr>)"
  by (simp add: getWikipediaContent_def getWikipediaContent_start_def
      getWikipediaContent_finish_def getWikipediaContent_try_def emptyState_def noKeyEnv_def
      map_get_def doFetch_def)

lemma freebase_match:
  "matchWikidata (at_id freebaseEntity) = None \<and>
   matchFreebase (at_id freebaseEntity) = Some (js ''0dl567'')"
  by (simp add: freebaseEntity_def js_def isWordChar_def isDigit_def Let_def)

lemma wikidata_match:
  "matchWikidata (js ''http://www.wikidata.org/entity/Q42'') = Some (js ''Q42'')"
  by (simp add: js_def isDigit_def Let_def)

text \<open>
  C3, as the code has it: for an entity without image fields, the Wikipedia content
  lookup is made with whatever id \<open>extractWikidataId\<close> returns, and that is the
  Wikidata id when the first pattern matches and otherwise the Freebase id of the
  fallback pattern. With no id the placeholder is returned and nothing is looked up.
  With an id \<open>i\<close>, \<open>getWikipediaContent(i)\<close> is called: a request for \<open>i\<close> is
  issued when the content cache has no entry for it, and the result is the proxied
  thumbnail source of the content if there is one and the placeholder if not.
\<close>

theorem extracted_id_is_looked_up:
  assumes "kg_image entity = None"
  shows "(extractWikidataId (at_id entity) = None \<longrightarrow>
            getKnowledgeGraphImageUrl e entity s = (Inr placeholder, s)) \<and>
         (\<forall>wid. matchWikidata (at_id entity) = Some wid \<longrightarrow>
            extractWikidataId (at_id entity) = Some wid) \<and>
         (\<forall>fid. matchWikidata (at_id entity) = None \<and>
                matchFreebase (at_id entity) = Some fid \<longrightarrow>
            extractWikidataId (at_id entity) = Some fid) \<and>
         (\<forall>i. extractWikidataId (at_id entity) = Some i \<longrightarrow>
            (map_get (contentCacheKey i) (contentCache s) = None \<longrightarrow>
               requests (snd (getKnowledgeGraphImageUrl e entity s)) =
                 requests s @ [contentRequestUrl i]) \<and>
            (\<forall>c s1. getWikipediaContent e i s = (Inr c, s1) \<longrightarrow>
               getKnowledgeGraphImageUrl e entity s =
                 (case truthy (Option.bind (Option.bind c thumbnail) source) of
                    Some src \<Rightarrow> proxied src s1
                  | None \<Rightarrow> (Inr placeholder, s1))))"
proof -
  have none: "extractWikidataId (at_id entity) = None \<longrightarrow>
            getKnowledgeGraphImageUrl e entity s = (Inr placeholder, s)"
    using assms by (simp add: getKnowledgeGraphImageUrl_def truthy_def)
  from none extractWikidataId_wikidata extractWikidataId_freebase
    image_lookup_requests [OF assms] image_lookup [OF assms]
  show ?thesis by (intro conjI allI impI) auto
qed

text \<open>
  C3, witness: the entity \<open>kg:/m/0dl567\<close> without image, with a network that
  rejects every request; an entity without any id; and a Wikidata identifier.
\<close>

theorem extracted_id_is_looked_up_witness:
  "kg_image freebaseEntity = None \<and> matchWikidata (at_id freebaseEntity) = None \<and>
   matchFreebase (at_id freebaseEntity) = Some (js ''0dl567'') \<and>
   map_get (contentCacheKey (js ''0dl567'')) (contentCache emptyState) = None \<and>
   getKnowledgeGraphImageUrl noKeyEnv freebaseEntity emptyState =
     (Inr placeholder, emptyState\<lparr>requests := [contentRequestUrl (js ''0dl567'')]\<rparr>) \<and>
   extractWikidataId (at_id untypedEntity) = None \<and>
   getKnowledgeGraphImageUrl noKeyEnv untypedEntity emptyState = (Inr placeholder, emptyState) \<and>
   extractWikidataId (js ''http://www.wikidata.org/entity/Q42'') = Some (js ''Q42'')"
proof -
  have img: "kg_image freebaseEntity = None" by (simp add: freebaseEntity_def)
  have miss: "map_get (contentCacheKey (js ''0dl567'')) (contentCache emptyState) = None"
    by (simp add: emptyState_def map_get_def)
  note F = extracted_id_is_looked_up [OF img, of noKeyEnv emptyState]
  from F freebase_match have ex: "extractWikidataId (at_id freebaseEntity) = Some (js ''0dl567'')"
    by blast
  from F ex rejected_content [of "js ''0dl567''"]
  have A: "getKnowledgeGraphImageUrl noKeyEnv freebaseEntity emptyState =
     (Inr placeholder, emptyState\<lparr>requests := [contentRequestUrl (js ''0dl567'')]\<rparr>)"
    by (simp add: truthy_def)
  have img2: "kg_image untypedEntity = None" by (simp add: untypedEntity_def)
  from extracted_id_is_looked_up [OF img2, of noKeyEnv emptyState] untyped_no_id
  have B: "getKnowledgeGraphImageUrl noKeyEnv untypedEntity emptyState =
     (Inr placeholder, emptyState)" by blast
  have img3: "kg_image (freebaseEntity\<lparr>at_id := js ''http://www.wikidata.org/entity/Q42''\<rparr>) = None"
    by (simp add: freebaseEntity_def)
  from extracted_id_is_looked_up [OF img3, of noKeyEnv emptyState] wikidata_match
  have C: "extractWikidataId (js ''http://www.wikidata.org/entity/Q42'') = Some (js ''Q42'')"
    by simp
  from img miss freebase_match A B C untyped_no_id show ?thesis by simp
qed

text \<open>
  C3, counterexample to the claim as stated: for the entity \<open>kg:/m/0dl567\<close>, which
  has a Freebase id, no Wikidata id and no image, \<open>getKnowledgeGraphImageUrl\<close>
  calls \<open>getWikipediaContent\<close> with the Freebase id, which issues the content
  request for \<open>0dl567\<close>.
\<close>

theorem extracted_id_is_looked_up_counterexample:
  "kg_image freebaseEntity = None \<and> matchWikidata (at_id freebaseEntity) = None \<and>
   matchFreebase (at_id freebaseEntity) = Some (js ''0dl567'') \<and>
   requests (snd (getKnowledgeGraphImageUrl errorDocumentEnv freebaseEntity emptyState)) =
     [contentRequestUrl (js ''0dl567'')]"
  by (simp add: freebaseEntity_def getKnowledgeGraphImageUrl_def extractWikidataId_def
      truthy_def js_def isWordChar_def isDigit_def Let_def getWikipediaContent_def
      getWikipediaContent_start_def getWikipediaContent_finish_def getWikipediaContent_try_def
      emptyState_def errorDocumentEnv_def map_get_def doFetch_def contentCacheKey_def)

end
